theory Spec2Isabelle
  imports Main "HOL-Library.Char_ord" "HOL-Library.Sublist"
begin

section \<open>Text and the regular expressions of moderation/utils.py\<close>

text \<open>
  A Python \<open>str\<close> is modelled as a \<open>string\<close> with one \<open>char\<close> per code point, for the
  code points U+0000 to U+00FF. In that range \<open>\d\<close> is the ten ASCII digits, \<open>\s\<close> is the
  white space listed in \<open>is_space\<close>, and \<open>str.lower\<close> maps one code point to one code point.
\<close>

definition is_digit :: "char \<Rightarrow> bool" where
  "is_digit c = (CHR ''0'' \<le> c \<and> c \<le> CHR ''9'')"

definition is_space :: "char \<Rightarrow> bool" where
  "is_space c = (let n = (of_char c :: nat) in
     (9 \<le> n \<and> n \<le> 13) \<or> (28 \<le> n \<and> n \<le> 32) \<or> n = 133 \<or> n = 160)"

definition py_lower :: "char \<Rightarrow> char" where
  "py_lower c = (let n = (of_char c :: nat) in
     if (65 \<le> n \<and> n \<le> 90) \<or> (192 \<le> n \<and> n \<le> 222 \<and> n \<noteq> 215)
     then char_of (n + 32) else c)"

definition py_upper :: "char \<Rightarrow> char" where
  "py_upper c = (let n = (of_char c :: nat) in
     if (97 \<le> n \<and> n \<le> 122) \<or> (224 \<le> n \<and> n \<le> 254 \<and> n \<noteq> 247)
     then char_of (n - 32) else c)"

text \<open>
  Every pattern of the module is a sequence of single-character atoms, each with a greedy
  repetition \<open>{lo,hi}\<close> (\<open>?\<close> is \<open>{0,1}\<close>, \<open>*\<close> is \<open>{0,}\<close>, \<open>+\<close> is \<open>{1,}\<close>, no
  quantifier is \<open>{1,1}\<close>). A character set is a list of alternatives.
\<close>

datatype catom = Ch char | Rg char char | Dg | Sp

type_synonym cset = "catom list"

datatype item = Item cset nat "nat option"

type_synonym pattern = "item list"

fun catom_mem :: "char \<Rightarrow> catom \<Rightarrow> bool" where
  "catom_mem c (Ch d) = (c = d)"
| "catom_mem c (Rg a b) = (a \<le> c \<and> c \<le> b)"
| "catom_mem c Dg = is_digit c"
| "catom_mem c Sp = is_space c"

text \<open>\<open>ic\<close> is the flag \<open>re.IGNORECASE\<close>.\<close>

definition cs_mem :: "bool \<Rightarrow> cset \<Rightarrow> char \<Rightarrow> bool" where
  "cs_mem ic cs c =
     (if ic then list_ex (catom_mem (py_lower c)) cs \<or> list_ex (catom_mem (py_upper c)) cs
      else list_ex (catom_mem c) cs)"

fun item_min :: "item \<Rightarrow> nat" where
  "item_min (Item cs lo hi) = lo"


fun greedy_count :: "bool \<Rightarrow> item \<Rightarrow> string \<Rightarrow> nat" where
  "greedy_count ic (Item cs lo hi) s =
     (let n = length (takeWhile (cs_mem ic cs) s)
      in case hi of None \<Rightarrow> n | Some h \<Rightarrow> min h n)"

text \<open>
  The backtracking matcher: an atom first takes as many characters as it can, then gives
  them back one at a time until the rest of the pattern matches (\<open>k\<close> is the rest of the
  match; the result is the text left after the match).
\<close>

fun backtrack :: "(string \<Rightarrow> string option) \<Rightarrow> string \<Rightarrow> nat \<Rightarrow> nat \<Rightarrow> string option" where
  "backtrack k s 0 lo = (if lo = 0 then k s else None)"
| "backtrack k s (Suc n) lo =
     (if Suc n < lo then None
      else case k (drop (Suc n) s) of
             Some r \<Rightarrow> Some r
           | None \<Rightarrow> backtrack k s n lo)"

primrec match_k :: "bool \<Rightarrow> pattern \<Rightarrow> (string \<Rightarrow> string option) \<Rightarrow> string \<Rightarrow> string option" where
  "match_k ic [] k s = k s"
| "match_k ic (it # rest) k s =
     backtrack (match_k ic rest k) s (greedy_count ic it s) (item_min it)"

text \<open>
  A match at the start of \<open>s\<close>. With \<open>must_advance\<close> an empty match is refused, as the
  scanning loops of \<open>re\<close> do right after an empty match.
\<close>

definition match_at :: "bool \<Rightarrow> pattern \<Rightarrow> bool \<Rightarrow> string \<Rightarrow> string option" where
  "match_at ic p must_advance s =
     match_k ic p (\<lambda>r. if must_advance \<and> length r = length s then None else Some r) s"

text \<open>The leftmost match: the text skipped, the text matched, the text after.\<close>

fun search :: "bool \<Rightarrow> pattern \<Rightarrow> bool \<Rightarrow> string \<Rightarrow> (string \<times> string \<times> string) option" where
  "search ic p ma [] =
     (case match_at ic p ma [] of
        Some r \<Rightarrow> Some ([], [], r)
      | None \<Rightarrow> None)"
| "search ic p ma (c # t) =
     (case match_at ic p ma (c # t) of
        Some r \<Rightarrow> Some ([], take (length (c # t) - length r) (c # t), r)
      | None \<Rightarrow>
         (case search ic p False t of
            None \<Rightarrow> None
          | Some (pre, m, r) \<Rightarrow> Some (c # pre, m, r)))"

lemma backtrack_Some:
  "backtrack k s n lo = Some r \<Longrightarrow> \<exists>j. lo \<le> j \<and> j \<le> n \<and> k (drop j s) = Some r"
proof (induction n)
  case 0
  then show ?case by (auto split: if_splits)
next
  case (Suc n)
  show ?case
  proof (cases "k (drop (Suc n) s)")
    case None
    with Suc.prems have "backtrack k s n lo = Some r" by (auto split: if_splits)
    from Suc.IH[OF this] show ?thesis by (meson le_Suc_eq)
  next
    case (Some a)
    with Suc.prems show ?thesis by (intro exI[of _ "Suc n"]) (auto split: if_splits)
  qed
qed

lemma match_k_Some:
  "match_k ic p k s = Some r \<Longrightarrow> \<exists>j. k (drop j s) = Some r"
proof (induction p arbitrary: s)
  case Nil
  then show ?case by (auto intro: exI[of _ 0])
next
  case (Cons it rest)
  from Cons.prems obtain j where j: "match_k ic rest k (drop j s) = Some r"
    by (auto dest: backtrack_Some)
  from Cons.IH[OF this] obtain i where "k (drop i (drop j s)) = Some r" by blast
  then show ?case by (intro exI[of _ "i + j"]) (auto simp: add.commute)
qed

lemma match_at_suffix:
  assumes "match_at ic p ma s = Some r"
  shows "\<exists>j. r = drop j s \<and> (ma \<longrightarrow> length r < length s)"
proof -
  from assms obtain j where j:
    "(if ma \<and> length (drop j s) = length s then None else Some (drop j s)) = Some r"
    unfolding match_at_def by (blast dest: match_k_Some)
  then show ?thesis by (intro exI[of _ j]) (auto split: if_splits)
qed

lemma search_Some:
  "search ic p ma s = Some (pre, m, r) \<Longrightarrow> s = pre @ m @ r \<and> (ma \<and> pre = [] \<longrightarrow> m \<noteq> [])"
proof (induction s arbitrary: pre m r ma)
  case Nil
  then show ?case by (auto split: option.splits dest!: match_at_suffix)
next
  case (Cons c t)
  show ?case
  proof (cases "match_at ic p ma (c # t)")
    case None
    with Cons.prems obtain pre' where "search ic p False t = Some (pre', m, r)" "pre = c # pre'"
      by (auto split: option.splits)
    with Cons.IH[of False pre' m r] show ?thesis by auto
  next
    case (Some r')
    from match_at_suffix[OF Some] obtain j where j:
      "r' = drop j (c # t)" "ma \<longrightarrow> length r' < length (c # t)" by blast
    from Some Cons.prems have e:
      "pre = []" "r = r'" "m = take (length (c # t) - length r') (c # t)" by auto
    have "take (length (c # t) - length (drop j (c # t))) (c # t) @ drop j (c # t) = c # t"
      by (cases "j \<le> length (c # t)") (simp_all del: take_Suc_Cons drop_Suc_Cons)
    with j e show ?thesis by auto
  qed
qed

text \<open>
  \<open>re.sub\<close> and \<open>re.findall\<close> scan from left to right over non-overlapping matches; right
  after an empty match the next match at the same place must not be empty.
\<close>

function subx :: "bool \<Rightarrow> pattern \<Rightarrow> string \<Rightarrow> bool \<Rightarrow> string \<Rightarrow> string" where
  "subx ic p repl ma s =
     (case search ic p ma s of
        None \<Rightarrow> s
      | Some (pre, m, r) \<Rightarrow> pre @ repl @ subx ic p repl (m = []) r)"
  by pat_completeness auto
termination
proof (relation "measure (\<lambda>(ic, p, repl, ma, s). 2 * length s + (if ma then 0 else 1))", goal_cases)
  case 1
  show ?case by simp
next
  case (2 ic p repl ma s x2 pre y m r)
  then have "search ic p ma s = Some (pre, m, r)" by simp
  from search_Some[OF this] show ?case by (cases pre; cases m) auto
qed

function findallx :: "bool \<Rightarrow> pattern \<Rightarrow> bool \<Rightarrow> string \<Rightarrow> string list" where
  "findallx ic p ma s =
     (case search ic p ma s of
        None \<Rightarrow> []
      | Some (pre, m, r) \<Rightarrow> m # findallx ic p (m = []) r)"
  by pat_completeness auto
termination
proof (relation "measure (\<lambda>(ic, p, ma, s). 2 * length s + (if ma then 0 else 1))", goal_cases)
  case 1
  show ?case by simp
next
  case (2 ic p ma s x2 pre y m r)
  then have "search ic p ma s = Some (pre, m, r)" by simp
  from search_Some[OF this] show ?case by (cases pre; cases m) auto
qed

declare subx.simps [simp del] findallx.simps [simp del]

definition re_sub :: "bool \<Rightarrow> pattern \<Rightarrow> string \<Rightarrow> string \<Rightarrow> string" where
  "re_sub ic p repl s = subx ic p repl False s"

definition re_findall :: "bool \<Rightarrow> pattern \<Rightarrow> string \<Rightarrow> string list" where
  "re_findall ic p s = findallx ic p False s"

subsection \<open>The patterns\<close>

definition lit :: "string \<Rightarrow> pattern" where
  "lit w = map (\<lambda>c. Item [Ch c] 1 (Some 1)) w"

definition sep :: cset where
  "sep = [Ch CHR ''-'', Ch CHR ''.'', Sp]"

definition alnum :: cset where
  "alnum = [Rg CHR ''a'' CHR ''z'', Rg CHR ''A'' CHR ''Z'', Rg CHR ''0'' CHR ''9'']"

definition alpha :: cset where
  "alpha = [Rg CHR ''a'' CHR ''z'', Rg CHR ''A'' CHR ''Z'']"

definition handle_chars :: cset where
  "handle_chars = alnum @ [Ch CHR ''_'']"

text \<open>\<^verbatim>\<open>\+?90?\s*\d{3}\s*\d{3}\s*\d{2}\s*\d{2}\<close>\<close>

definition phone_turkish :: pattern where
  "phone_turkish =
     [Item [Ch CHR ''+''] 0 (Some 1), Item [Ch CHR ''9''] 1 (Some 1), Item [Ch CHR ''0''] 0 (Some 1),
      Item [Sp] 0 None, Item [Dg] 3 (Some 3),
      Item [Sp] 0 None, Item [Dg] 3 (Some 3),
      Item [Sp] 0 None, Item [Dg] 2 (Some 2),
      Item [Sp] 0 None, Item [Dg] 2 (Some 2)]"

text \<open>\<^verbatim>\<open>\+?\d{1,3}[-.\s]?\d{3}[-.\s]?\d{3}[-.\s]?\d{4}\<close>\<close>

definition phone_international :: pattern where
  "phone_international =
     [Item [Ch CHR ''+''] 0 (Some 1), Item [Dg] 1 (Some 3),
      Item sep 0 (Some 1), Item [Dg] 3 (Some 3),
      Item sep 0 (Some 1), Item [Dg] 3 (Some 3),
      Item sep 0 (Some 1), Item [Dg] 4 (Some 4)]"

text \<open>\<^verbatim>\<open>\d{10,11}\<close>\<close>

definition phone_simple :: pattern where
  "phone_simple = [Item [Dg] 10 (Some 11)]"

text \<open>\<^verbatim>\<open>\(\d{3}\)\s*\d{3}[-.\s]?\d{4}\<close>\<close>

definition phone_area_code :: pattern where
  "phone_area_code =
     lit ''('' @ [Item [Dg] 3 (Some 3)] @ lit '')'' @
     [Item [Sp] 0 None, Item [Dg] 3 (Some 3), Item sep 0 (Some 1), Item [Dg] 4 (Some 4)]"

definition PHONE_PATTERNS :: "pattern list" where
  "PHONE_PATTERNS = [phone_turkish, phone_international, phone_simple, phone_area_code]"

text \<open>\<^verbatim>\<open>[a-zA-Z0-9._%+-]+@[a-zA-Z0-9.-]+\.[a-zA-Z]{2,}\<close>\<close>

definition EMAIL_PATTERN :: pattern where
  "EMAIL_PATTERN =
     [Item (alnum @ [Ch CHR ''.'', Ch CHR ''_'', Ch CHR ''%'', Ch CHR ''+'', Ch CHR ''-'']) 1 None]
     @ lit ''@'' @
     [Item (alnum @ [Ch CHR ''.'', Ch CHR ''-'']) 1 None]
     @ lit ''.'' @
     [Item alpha 2 None]"

text \<open>
  \<^verbatim>\<open>@[a-zA-Z0-9_]{3,}\<close>, \<^verbatim>\<open>instagram\.com/[a-zA-Z0-9_]+\<close>, \<^verbatim>\<open>twitter\.com/[a-zA-Z0-9_]+\<close>,
  \<^verbatim>\<open>facebook\.com/[a-zA-Z0-9.]+\<close>, \<^verbatim>\<open>t\.me/[a-zA-Z0-9_]+\<close>
\<close>

definition SOCIAL_PATTERNS :: "pattern list" where
  "SOCIAL_PATTERNS =
     [lit ''@'' @ [Item handle_chars 3 None],
      lit ''instagram.com/'' @ [Item handle_chars 1 None],
      lit ''twitter.com/'' @ [Item handle_chars 1 None],
      lit ''facebook.com/'' @ [Item (alnum @ [Ch CHR ''.'']) 1 None],
      lit ''t.me/'' @ [Item handle_chars 1 None]]"

definition tok_phone :: string where
  "tok_phone = ''[telefon gizlendi]''"

definition tok_email :: string where
  "tok_email = ''[email gizlendi]''"

definition tok_social :: string where
  "tok_social = ''[sosyal medya gizlendi]''"

text \<open>The fourth letter of the last token is U+00E7 (c with cedilla).\<close>

definition tok_banned :: string where
  "tok_banned = ''[i'' @ [CHR 0xE7] @ ''erik gizlendi]''"

section \<open>The content filter (moderation/utils.py)\<close>

text \<open>A violation: its \<open>type\<close> and its \<open>matches\<close>.\<close>

type_synonym violation = "string \<times> string list"

record filter_result =
  filtered_text :: string
  original_text :: string
  is_clean :: bool
  violations :: "violation list"

text \<open>
  What the filter calls outside this repository: the two functions of \<open>better_profanity\<close>, and
  \<open>re.search\<close> and \<open>re.sub\<close> on a pattern that a moderator typed (flag \<open>re.IGNORECASE\<close>);
  \<open>re_search_ic word text = None\<close> stands for \<open>re.error\<close> on a word that is no regular
  expression.
\<close>

record pylib =
  contains_profanity :: "string \<Rightarrow> bool"
  censor :: "string \<Rightarrow> string"
  re_search_ic :: "string \<Rightarrow> string \<Rightarrow> bool option"
  re_sub_ic :: "string \<Rightarrow> string \<Rightarrow> string \<Rightarrow> string"

record banned_row =
  word :: string
  is_regex :: bool
  is_active :: bool

text \<open>The table of banned words; \<open>None\<close> is a store that cannot be read.\<close>

type_synonym banned_store = "banned_row list option"

text \<open>One pattern of a pass: \<open>findall\<close>, and when it found something, a violation and \<open>sub\<close>.\<close>

definition redact :: "bool \<Rightarrow> string \<Rightarrow> string \<Rightarrow> string \<times> violation list \<Rightarrow> pattern \<Rightarrow> string \<times> violation list" where
  "redact ic kind tok st p =
     (let matches = re_findall ic p (fst st)
      in if matches \<noteq> [] then (re_sub ic p tok (fst st), snd st @ [(kind, matches)]) else st)"

text \<open>\<open>a in b\<close> on strings.\<close>

fun py_in :: "string \<Rightarrow> string \<Rightarrow> bool" where
  "py_in w [] = (w = [])"
| "py_in w (c # t) = (prefix w (c # t) \<or> py_in w t)"

text \<open>
  The loop over the active banned words. An exception leaves the loop with the text and the
  violations as they are at that moment (\<open>except Exception: pass\<close>).
\<close>

fun banned_loop :: "pylib \<Rightarrow> banned_row list \<Rightarrow> string \<times> violation list \<Rightarrow> string \<times> violation list" where
  "banned_loop L [] st = st"
| "banned_loop L (b # bs) st =
     (if is_regex b then
        (case re_search_ic L (word b) (fst st) of
           None \<Rightarrow> st
         | Some found \<Rightarrow>
             if found
             then banned_loop L bs (re_sub_ic L (word b) tok_banned (fst st),
                                     snd st @ [(''banned_word'', [word b])])
             else banned_loop L bs st)
      else
        if py_in (map py_lower (word b)) (map py_lower (fst st))
        then banned_loop L bs (re_sub True (lit (word b)) tok_banned (fst st),
                                snd st @ [(''banned_word'', [word b])])
        else banned_loop L bs st)"

definition clean_result :: filter_result where
  "clean_result = \<lparr>filtered_text = [], original_text = [], is_clean = True, violations = []\<rparr>"

definition filter_ugc_content :: "pylib \<Rightarrow> banned_store \<Rightarrow> string option \<Rightarrow> filter_result" where
  "filter_ugc_content L store text =
     (case text of
        None \<Rightarrow> clean_result
      | Some t \<Rightarrow>
          if t = [] then clean_result
          else
            let st1 = foldl (redact False ''phone_number'' tok_phone) (t, []) PHONE_PATTERNS;
                st2 = redact True ''email'' tok_email st1 EMAIL_PATTERN;
                st3 = foldl (redact True ''social_media'' tok_social) st2 SOCIAL_PATTERNS;
                st4 = (if contains_profanity L (fst st3)
                       then (censor L (fst st3), snd st3 @ [(''profanity'', [])])
                       else st3);
                st5 = (case store of
                         None \<Rightarrow> st4
                       | Some rows \<Rightarrow> banned_loop L (filter is_active rows) st4)
            in \<lparr>filtered_text = fst st5, original_text = t,
                is_clean = (length (snd st5) = 0), violations = snd st5\<rparr>)"

section \<open>Messages and conversations (messaging/models.py)\<close>

text \<open>Times are seconds on a clock; identifiers are the keys the database assigns.\<close>

record user =
  user_id :: nat
  email :: string
  display_name :: string
  avatar :: "string option"
  user_is_active :: bool

record conversation =
  conv_id :: nat
  conv_activity_id :: "nat option"
  participants :: "nat list"
  conversation_type :: string
  conv_created_at :: nat
  last_message_at :: nat

record message =
  msg_id :: nat
  msg_conversation :: nat
  sender :: nat
  content :: string
  is_filtered :: bool
  original_content :: string
  is_read :: bool
  read_at :: "nat option"
  msg_created_at :: nat

text \<open>
  The tables the messaging code reads and writes. \<open>blocked_users\<close> holds the pairs
  (blocker, blocked); \<open>activity_ids\<close> the keys of the activities that exist.
\<close>

record db =
  users :: "user list"
  blocked_users :: "(nat \<times> nat) list"
  banned_words :: banned_store
  activity_ids :: "nat list"
  conversations :: "conversation list"
  messages :: "message list"
  next_conversation_id :: nat
  next_message_id :: nat

datatype exn = DoesNotExist | IntegrityError | AttributeError

text \<open>An HTTP response: the status and the body, or the status of an error body.\<close>

datatype 'a response = Response nat 'a | ErrorResponse nat

text \<open>\<open>Conversation.objects.get(id=...)\<close>\<close>

definition get_conversation :: "nat \<Rightarrow> db \<Rightarrow> conversation option" where
  "get_conversation cid d = find (\<lambda>c. conv_id c = cid) (conversations d)"


text \<open>\<open>conversation.save()\<close>: the row is written back, \<open>last_message_at\<close> is \<open>auto_now\<close>.\<close>

definition save_conversation :: "conversation \<Rightarrow> nat \<Rightarrow> db \<Rightarrow> db" where
  "save_conversation c now d =
     d\<lparr>conversations :=
         map (\<lambda>x. if conv_id x = conv_id c then c\<lparr>last_message_at := now\<rparr> else x)
           (conversations d)\<rparr>"

text \<open>
  \<open>Message.objects.create(conversation, sender, content, is_filtered, original_content)\<close>:
  the other columns take their defaults.
\<close>

definition create_message :: "nat \<Rightarrow> nat \<Rightarrow> nat \<Rightarrow> string \<Rightarrow> bool \<Rightarrow> string \<Rightarrow> db \<Rightarrow> db \<times> message" where
  "create_message now cid uid c f oc d =
     (let m = \<lparr>msg_id = next_message_id d, msg_conversation = cid, sender = uid,
                content = c, is_filtered = f, original_content = oc,
                is_read = False, read_at = None, msg_created_at = now\<rparr>
      in (d\<lparr>messages := messages d @ [m], next_message_id := Suc (next_message_id d)\<rparr>, m))"

text \<open>\<open>user.display_name or user.email.split('@')[0]\<close>\<close>

definition shown_name :: "user \<Rightarrow> string" where
  "shown_name u =
     (if display_name u \<noteq> [] then display_name u
      else takeWhile (\<lambda>c. c \<noteq> CHR ''@'') (email u))"

section \<open>Message persistence (messaging/consumers.py, messaging/views.py)\<close>

record message_data =
  md_id :: nat
  md_sender_id :: nat
  md_sender_display_name :: string
  md_sender_avatar :: "string option"
  md_content :: string
  md_is_filtered :: bool
  md_created_at :: nat

text \<open>\<open>ChatConsumer.save_message\<close>, for the consumer's conversation and user.\<close>

definition save_message :: "pylib \<Rightarrow> nat \<Rightarrow> nat \<Rightarrow> user \<Rightarrow> string \<Rightarrow> db \<Rightarrow> exn + (db \<times> message_data)" where
  "save_message L now cid u raw d =
     (case get_conversation cid d of
        None \<Rightarrow> Inl DoesNotExist
      | Some conversation \<Rightarrow>
          let result = filter_ugc_content L (banned_words d) (Some raw);
              (d1, m) = create_message now cid (user_id u)
                          (if \<not> is_clean result then filtered_text result else raw)
                          (\<not> is_clean result)
                          (if \<not> is_clean result then raw else [])
                          d;
              d2 = save_conversation conversation now d1
          in Inr (d2,
                  \<lparr>md_id = msg_id m, md_sender_id = user_id u,
                   md_sender_display_name = shown_name u, md_sender_avatar = avatar u,
                   md_content = content m, md_is_filtered = is_filtered m,
                   md_created_at = msg_created_at m\<rparr>))"



subsection \<open>Sample data\<close>

definition plain_lib :: pylib where
  "plain_lib = \<lparr>contains_profanity = (\<lambda>t. False), censor = (\<lambda>t. t),
                 re_search_ic = (\<lambda>w t. None), re_sub_ic = (\<lambda>w r t. t)\<rparr>"

definition alice :: user where
  "alice = \<lparr>user_id = 1, email = ''alice@example.com'', display_name = ''Alice'',
             avatar = None, user_is_active = True\<rparr>"

definition bob :: user where
  "bob = \<lparr>user_id = 2, email = ''bob@example.com'', display_name = [],
           avatar = None, user_is_active = True\<rparr>"

definition carol :: user where
  "carol = \<lparr>user_id = 3, email = ''carol@example.com'', display_name = ''Carol'',
             avatar = None, user_is_active = False\<rparr>"

definition chat_1 :: conversation where
  "chat_1 = \<lparr>conv_id = 1, conv_activity_id = None, participants = [1, 2],
              conversation_type = ''direct'', conv_created_at = 10, last_message_at = 10\<rparr>"

definition db_1 :: db where
  "db_1 = \<lparr>users = [alice, bob, carol], blocked_users = [], banned_words = Some [],
            activity_ids = [], conversations = [chat_1], messages = [],
            next_conversation_id = 2, next_message_id = 1\<rparr>"

section \<open>The content filter: properties\<close>

text \<open>
  C9. For the empty string and for \<open>None\<close> the filter returns a clean result with no
  violations and empty filtered text (the function is total: nothing is raised); and for
  every input the result is clean if and only if its list of violations is empty.
\<close>

theorem filter_clean_input:
  "filter_ugc_content L store None = clean_result
   \<and> filter_ugc_content L store (Some []) = clean_result
   \<and> is_clean clean_result \<and> violations clean_result = [] \<and> filtered_text clean_result = []
   \<and> (is_clean (filter_ugc_content L store text) = (violations (filter_ugc_content L store text) = []))"
  by (auto simp: filter_ugc_content_def clean_result_def Let_def split: option.splits)

section \<open>Creating a conversation (messaging/views.py, messaging/serializers.py)\<close>

record create_body =
  participant_ids :: "nat list"
  body_activity_id :: "nat option"
  initial_message :: string

text \<open>\<open>CreateConversationSerializer\<close>: one to ten participants, a message of at most 2000.\<close>

definition CreateConversationSerializer_is_valid :: "create_body \<Rightarrow> bool" where
  "CreateConversationSerializer_is_valid b =
     (1 \<le> length (participant_ids b) \<and> length (participant_ids b) \<le> 10
      \<and> length (initial_message b) \<le> 2000)"

text \<open>The identifiers in the rows of \<open>BlockedUser\<close> that name the user on either side.\<close>

definition blocked_flat :: "nat \<Rightarrow> db \<Rightarrow> nat list" where
  "blocked_flat uid d =
     concat (map (\<lambda>(b, c). [b, c]) (filter (\<lambda>(b, c). b = uid \<or> c = uid) (blocked_users d)))"

text \<open>The truth value of \<open>activity_id\<close> in Python: \<open>None\<close> and \<open>0\<close> are false.\<close>

definition truthy :: "nat option \<Rightarrow> bool" where
  "truthy x = (case x of None \<Rightarrow> False | Some n \<Rightarrow> n \<noteq> 0)"

text \<open>
  \<open>Meta.ordering = ['-last_message_at']\<close>. Rows with the same time keep the order of the
  table (the database leaves their order open).
\<close>

definition newest_first :: "conversation list \<Rightarrow> conversation list" where
  "newest_first cs = sort_key (\<lambda>c. - int (last_message_at c)) cs"

text \<open>
  \<open>Conversation.objects.filter(participants=user, conversation_type='direct')
     .filter(participants=pid)\<close>, and \<open>.first()\<close> of it.
\<close>

definition direct_between :: "nat \<Rightarrow> nat \<Rightarrow> db \<Rightarrow> conversation list" where
  "direct_between uid pid d =
     filter (\<lambda>c. List.member (participants c) uid \<and> conversation_type c = ''direct''
                  \<and> List.member (participants c) pid)
       (conversations d)"

definition existing_direct :: "nat \<Rightarrow> nat \<Rightarrow> db \<Rightarrow> conversation option" where
  "existing_direct uid pid d =
     (case newest_first (direct_between uid pid d) of
        [] \<Rightarrow> None
      | c # cs \<Rightarrow> Some c)"

text \<open>\<open>conversation.participants.add(*users)\<close>: a user is a participant once.\<close>

definition add_participants :: "nat list \<Rightarrow> nat list \<Rightarrow> nat list" where
  "add_participants ps ids = foldl (\<lambda>acc x. if List.member acc x then acc else acc @ [x]) ps ids"

text \<open>
  \<open>CreateConversationView.post\<close>. The foreign key \<open>activity_id\<close> of a new conversation must
  name an activity that exists.
\<close>

definition CreateConversationView_post :: "pylib \<Rightarrow> nat \<Rightarrow> user \<Rightarrow> create_body \<Rightarrow> db \<Rightarrow> exn + (db \<times> conversation response)" where
  "CreateConversationView_post L now u b d =
     (if \<not> CreateConversationSerializer_is_valid b then Inr (d, ErrorResponse 400)
      else
        let pids = participant_ids b;
            activity_id = body_activity_id b;
            im = initial_message b
        in if list_ex (\<lambda>pid. List.member (blocked_flat (user_id u) d) pid) pids
           then Inr (d, ErrorResponse 400)
           else
             (case (if \<not> truthy activity_id \<and> length pids = 1
                    then (case existing_direct (user_id u) (hd pids) d of
                            None \<Rightarrow> None
                          | Some existing \<Rightarrow>
                              if length (participants existing) = 2 then Some existing else None)
                    else None) of
                Some existing \<Rightarrow> Inr (d, Response 200 existing)
              | None \<Rightarrow>
                  if (case activity_id of None \<Rightarrow> False
                      | Some k \<Rightarrow> \<not> List.member (activity_ids d) k)
                  then Inl IntegrityError
                  else
                    let conversation =
                          \<lparr>conv_id = next_conversation_id d, conv_activity_id = activity_id,
                           participants =
                             add_participants (add_participants [] [user_id u])
                               (map user_id
                                  (filter (\<lambda>x. List.member pids (user_id x) \<and> user_is_active x)
                                     (users d))),
                           conversation_type = (if truthy activity_id then ''activity'' else ''direct''),
                           conv_created_at = now, last_message_at = now\<rparr>;
                        d1 = d\<lparr>conversations := conversations d @ [conversation],
                               next_conversation_id := Suc (next_conversation_id d)\<rparr>;
                        d2 = (if im \<noteq> [] then
                                (let result = filter_ugc_content L (banned_words d1) (Some im)
                                 in fst (create_message now (conv_id conversation) (user_id u)
                                           (if \<not> is_clean result then filtered_text result else im)
                                           (\<not> is_clean result)
                                           (if \<not> is_clean result then im else [])
                                           d1))
                              else d1)
                    in Inr (d2, Response 201 conversation)))"

section \<open>Marking messages as read (messaging/views.py, consumers.py, models.py)\<close>

text \<open>
  \<open>conversation.messages.filter(is_read=False).exclude(sender=user).update(is_read=True)\<close>:
  the rows of the conversation that the filters select get the new value of the one column;
  the result of \<open>update\<close> is the number of rows.
\<close>

definition unread_from_others :: "nat \<Rightarrow> nat \<Rightarrow> message \<Rightarrow> bool" where
  "unread_from_others cid uid m =
     (msg_conversation m = cid \<and> is_read m = False \<and> sender m \<noteq> uid)"

definition update_is_read :: "nat \<Rightarrow> nat \<Rightarrow> db \<Rightarrow> db \<times> nat" where
  "update_is_read cid uid d =
     (d\<lparr>messages :=
          map (\<lambda>m. if unread_from_others cid uid m then m\<lparr>is_read := True\<rparr> else m)
            (messages d)\<rparr>,
      length (filter (unread_from_others cid uid) (messages d)))"



text \<open>\<open>ChatConsumer.mark_messages_read\<close>\<close>

definition mark_messages_read :: "nat \<Rightarrow> user \<Rightarrow> db \<Rightarrow> exn + db" where
  "mark_messages_read cid u d =
     (case get_conversation cid d of
        None \<Rightarrow> Inl DoesNotExist
      | Some conversation \<Rightarrow> Inr (fst (update_is_read cid (user_id u) d)))"


section \<open>The chat consumer and its channel layer (messaging/consumers.py)\<close>

text \<open>\<open>scope.get('user')\<close>: nothing, the anonymous user, or a user of the database.\<close>

datatype scope_user = NoUser | AnonymousUser | AuthUser user

record consumer =
  conversation_id :: nat
  consumer_user :: scope_user
  channel_name :: nat

text \<open>The name \<open>chat_<conversation_id>\<close> of a group.\<close>

datatype group = Chat nat

definition room_group_name :: "consumer \<Rightarrow> group" where
  "room_group_name k = Chat (conversation_id k)"

text \<open>Messages of the channel layer, frames written to a socket, decoded frames read from one.\<close>

datatype event =
  E_chat_message message_data
  | E_typing_indicator nat string bool
  | E_messages_read nat

datatype frame =
  F_chat_message message_data
  | F_typing nat string bool
  | F_read nat

datatype payload =
  Undecodable
  | P_chat_message "string option"
  | P_typing "bool option"
  | P_read
  | P_other

datatype conn_state = Connecting | Joined | Closed

text \<open>
  The store, the groups of the channel layer, the consumer of every channel, the state of
  its connection, and the frames sent to its socket so far.
\<close>

record world =
  database :: db
  groups :: "group \<Rightarrow> nat set"
  consumers :: "nat \<Rightarrow> consumer option"
  conn :: "nat \<Rightarrow> conn_state"
  outbox :: "nat \<Rightarrow> frame list"

text \<open>\<open>ChatConsumer.check_participant\<close>\<close>

definition check_participant :: "nat \<Rightarrow> user \<Rightarrow> db \<Rightarrow> bool" where
  "check_participant cid u d =
     list_ex (\<lambda>c. conv_id c = cid \<and> List.member (participants c) (user_id u)) (conversations d)"

text \<open>\<open>ChatConsumer.connect\<close> for a new channel \<open>ch\<close>.\<close>

definition connect :: "nat \<Rightarrow> scope_user \<Rightarrow> nat \<Rightarrow> world \<Rightarrow> world" where
  "connect ch su cid w =
     (let k = \<lparr>conversation_id = cid, consumer_user = su, channel_name = ch\<rparr>;
          w1 = w\<lparr>consumers := (consumers w)(ch := Some k)\<rparr>
      in case su of
           NoUser \<Rightarrow> w1\<lparr>conn := (conn w1)(ch := Closed)\<rparr>
         | AnonymousUser \<Rightarrow> w1\<lparr>conn := (conn w1)(ch := Closed)\<rparr>
         | AuthUser u \<Rightarrow>
             if \<not> check_participant cid u (database w1) then w1\<lparr>conn := (conn w1)(ch := Closed)\<rparr>
             else w1\<lparr>groups := (groups w1)(room_group_name k := insert ch (groups w1 (room_group_name k))),
                    conn := (conn w1)(ch := Joined)\<rparr>)"

text \<open>\<open>ChatConsumer.disconnect\<close>\<close>

definition disconnect :: "consumer \<Rightarrow> world \<Rightarrow> world" where
  "disconnect k w =
     w\<lparr>groups := (groups w)(room_group_name k := groups w (room_group_name k) - {channel_name k}),
       conn := (conn w)(channel_name k := Closed)\<rparr>"

text \<open>
  The handlers \<open>chat_message\<close>, \<open>typing_indicator\<close> and \<open>messages_read\<close> of a consumer whose
  user is \<open>u\<close>: the frames it sends for an event of its group.
\<close>

fun handle_event :: "user \<Rightarrow> event \<Rightarrow> frame list" where
  "handle_event u (E_chat_message md) = [F_chat_message md]"
| "handle_event u (E_typing_indicator uid name t) =
     (if uid \<noteq> user_id u then [F_typing uid name t] else [])"
| "handle_event u (E_messages_read uid) = [F_read uid]"

text \<open>
  \<open>channel_layer.group_send\<close>: every channel of the group hands the event to its consumer.
  Only consumers of authenticated users are ever added to a group.
\<close>

definition group_send :: "group \<Rightarrow> event \<Rightarrow> world \<Rightarrow> world" where
  "group_send g ev w =
     w\<lparr>outbox := (\<lambda>c. outbox w c @
          (if c \<in> groups w g then
             (case consumers w c of
                None \<Rightarrow> []
              | Some k \<Rightarrow>
                  (case consumer_user k of
                     AuthUser u \<Rightarrow> handle_event u ev
                   | NoUser \<Rightarrow> []
                   | AnonymousUser \<Rightarrow> []))
           else []))\<rparr>"

text \<open>\<open>str.strip()\<close>\<close>

definition py_strip :: "string \<Rightarrow> string" where
  "py_strip s = rev (dropWhile is_space (rev (dropWhile is_space s)))"

text \<open>\<open>handle_chat_message\<close>, \<open>handle_typing\<close> and \<open>handle_read\<close> of the consumer of user \<open>u\<close>.\<close>

definition handle_chat_message :: "pylib \<Rightarrow> nat \<Rightarrow> consumer \<Rightarrow> user \<Rightarrow> string option \<Rightarrow> world \<Rightarrow> exn + world" where
  "handle_chat_message L now k u data_content w =
     (let content_in = py_strip (case data_content of None \<Rightarrow> [] | Some c \<Rightarrow> c)
      in if content_in = [] then Inr w
         else
           (case save_message L now (conversation_id k) u content_in (database w) of
              Inl e \<Rightarrow> Inl e
            | Inr (d, message_data) \<Rightarrow>
                Inr (group_send (room_group_name k) (E_chat_message message_data) (w\<lparr>database := d\<rparr>))))"

definition handle_typing :: "consumer \<Rightarrow> user \<Rightarrow> bool option \<Rightarrow> world \<Rightarrow> world" where
  "handle_typing k u data_is_typing w =
     group_send (room_group_name k)
       (E_typing_indicator (user_id u) (shown_name u)
          (case data_is_typing of None \<Rightarrow> False | Some t \<Rightarrow> t))
       w"

definition handle_read :: "consumer \<Rightarrow> user \<Rightarrow> world \<Rightarrow> exn + world" where
  "handle_read k u w =
     (case mark_messages_read (conversation_id k) u (database w) of
        Inl e \<Rightarrow> Inl e
      | Inr d \<Rightarrow> Inr (group_send (room_group_name k) (E_messages_read (user_id u)) (w\<lparr>database := d\<rparr>)))"

text \<open>\<open>ChatConsumer.receive\<close>: a frame that is no JSON, or has another type, is dropped.\<close>

definition receive :: "pylib \<Rightarrow> nat \<Rightarrow> consumer \<Rightarrow> user \<Rightarrow> payload \<Rightarrow> world \<Rightarrow> exn + world" where
  "receive L now k u p w =
     (case p of
        Undecodable \<Rightarrow> Inr w
      | P_chat_message c \<Rightarrow> handle_chat_message L now k u c w
      | P_typing t \<Rightarrow> Inr (handle_typing k u t w)
      | P_read \<Rightarrow> handle_read k u w
      | P_other \<Rightarrow> Inr w)"

text \<open>
  What happens on the server, one action at a time: a connection attempt on a new channel,
  a frame from the client of a channel, the end of a connection. The framework hands frames
  only to the consumer of an accepted connection; a consumer that raises is gone, and its
  channel stays in its group with nobody behind it.
\<close>

datatype action =
  A_connect nat scope_user nat
  | A_receive nat payload nat
  | A_disconnect nat

fun action_channel :: "action \<Rightarrow> nat" where
  "action_channel (A_connect ch su cid) = ch"
| "action_channel (A_receive ch p now) = ch"
| "action_channel (A_disconnect ch) = ch"

fun is_connect :: "action \<Rightarrow> bool" where
  "is_connect (A_connect ch su cid) = True"
| "is_connect (A_receive ch p now) = False"
| "is_connect (A_disconnect ch) = False"

fun step :: "pylib \<Rightarrow> world \<Rightarrow> action \<Rightarrow> world" where
  "step L w (A_connect ch su cid) = connect ch su cid w"
| "step L w (A_receive ch p now) =
     (case consumers w ch of
        None \<Rightarrow> w
      | Some k \<Rightarrow>
          (case consumer_user k of
             AuthUser u \<Rightarrow>
               if conn w ch = Joined then
                 (case receive L now k u p w of
                    Inr w' \<Rightarrow> w'
                  | Inl e \<Rightarrow> w\<lparr>consumers := (consumers w)(ch := None),
                               conn := (conn w)(ch := Closed)\<rparr>)
               else w
           | NoUser \<Rightarrow> w
           | AnonymousUser \<Rightarrow> w))"
| "step L w (A_disconnect ch) =
     (case consumers w ch of
        None \<Rightarrow> w
      | Some k \<Rightarrow> (disconnect k w)\<lparr>consumers := (consumers w)(ch := None)\<rparr>)"

subsection \<open>Sample data\<close>

definition world_1 :: world where
  "world_1 = \<lparr>database = db_1, groups = (\<lambda>g. {}), consumers = (\<lambda>c. None),
               conn = (\<lambda>c. Connecting), outbox = (\<lambda>c. [])\<rparr>"

definition alice_consumer :: consumer where
  "alice_consumer = \<lparr>conversation_id = 1, consumer_user = AuthUser alice, channel_name = 10\<rparr>"

definition bob_consumer :: consumer where
  "bob_consumer = \<lparr>conversation_id = 1, consumer_user = AuthUser bob, channel_name = 11\<rparr>"

text \<open>Alice and Bob have joined conversation 1, on the channels 10 and 11.\<close>

definition world_2 :: world where
  "world_2 = connect 11 (AuthUser bob) 1 (connect 10 (AuthUser alice) 1 world_1)"


definition chat_of_three :: conversation where
  "chat_of_three = \<lparr>conv_id = 2, conv_activity_id = None, participants = [1, 2, 3],
                     conversation_type = ''direct'', conv_created_at = 12, last_message_at = 15\<rparr>"

definition chat_new :: conversation where
  "chat_new = \<lparr>conv_id = 3, conv_activity_id = None, participants = [1, 2],
                conversation_type = ''direct'', conv_created_at = 20, last_message_at = 20\<rparr>"

definition db_3 :: db where
  "db_3 = db_1\<lparr>conversations := [chat_1, chat_of_three], next_conversation_id := 3\<rparr>"

definition to_bob :: create_body where
  "to_bob = \<lparr>participant_ids = [2], body_activity_id = None, initial_message = []\<rparr>"


section \<open>Activities and applications (activities/models.py, activities/views.py)\<close>

text \<open>The columns of an activity that the capacity and status code reads or writes.\<close>

record activity =
  activity_id :: nat
  creator :: nat
  start_time :: nat
  end_time :: "nat option"
  max_participants :: nat
  current_participants :: nat
  status :: string
  activity_is_active :: bool
  updated_at :: nat

record participation =
  participation_id :: nat
  part_activity :: nat
  part_user :: nat
  part_message :: string
  part_status :: string
  is_group :: bool
  group_member_count :: nat
  applied_at :: nat
  responded_at :: "nat option"

record activity_store =
  activities :: "activity list"
  participations :: "participation list"

definition is_full :: "activity \<Rightarrow> bool" where
  "is_full a = (current_participants a \<ge> max_participants a)"

definition spots_left :: "activity \<Rightarrow> nat" where
  "spots_left a = nat (max 0 (int (max_participants a) - int (current_participants a)))"

definition is_past :: "nat \<Rightarrow> activity \<Rightarrow> bool" where
  "is_past now a =
     (case end_time a of
        None \<Rightarrow> start_time a < now
      | Some e \<Rightarrow> e < now)"

text \<open>The first lines of \<open>Activity.save\<close>: the status of the instance is recomputed.\<close>

definition auto_update_status :: "nat \<Rightarrow> activity \<Rightarrow> activity" where
  "auto_update_status now a =
     (if is_full a \<and> status a = ''active'' then a\<lparr>status := ''full''\<rparr>
      else if is_past now a \<and> List.member [''active'', ''full''] (status a)
           then a\<lparr>status := ''completed''\<rparr>
           else a)"

text \<open>
  \<open>super().save\<close>: without \<open>update_fields\<close> the whole instance is written (inserted when
  there is no row with its key) and \<open>updated_at\<close> is the time of the save; with
  \<open>update_fields\<close> only the named columns of the row are written.
\<close>

fun write_field :: "activity \<Rightarrow> string \<Rightarrow> activity \<Rightarrow> activity" where
  "write_field inst f row =
     (if f = ''creator'' then row\<lparr>creator := creator inst\<rparr>
      else if f = ''start_time'' then row\<lparr>start_time := start_time inst\<rparr>
      else if f = ''end_time'' then row\<lparr>end_time := end_time inst\<rparr>
      else if f = ''max_participants'' then row\<lparr>max_participants := max_participants inst\<rparr>
      else if f = ''current_participants''
           then row\<lparr>current_participants := current_participants inst\<rparr>
      else if f = ''status'' then row\<lparr>status := status inst\<rparr>
      else if f = ''is_active'' then row\<lparr>activity_is_active := activity_is_active inst\<rparr>
      else if f = ''updated_at'' then row\<lparr>updated_at := updated_at inst\<rparr>
      else row)"

definition model_save :: "nat \<Rightarrow> string list option \<Rightarrow> activity \<Rightarrow> activity_store \<Rightarrow> activity \<times> activity_store" where
  "model_save now update_fields inst S =
     (case update_fields of
        None \<Rightarrow>
          let inst' = inst\<lparr>updated_at := now\<rparr>
          in (inst',
              S\<lparr>activities :=
                  (if list_ex (\<lambda>r. activity_id r = activity_id inst) (activities S)
                   then map (\<lambda>r. if activity_id r = activity_id inst then inst' else r)
                          (activities S)
                   else activities S @ [inst'])\<rparr>)
      | Some names \<Rightarrow>
          (inst,
           S\<lparr>activities :=
               map (\<lambda>r. if activity_id r = activity_id inst
                         then foldr (write_field inst) names r else r)
                 (activities S)\<rparr>))"

text \<open>\<open>Activity.save\<close>: the instance after the call and the store after it.\<close>

definition Activity_save :: "nat \<Rightarrow> string list option \<Rightarrow> activity \<Rightarrow> activity_store \<Rightarrow> activity \<times> activity_store" where
  "Activity_save now update_fields a S = model_save now update_fields (auto_update_status now a) S"

text \<open>\<open>participation.save()\<close>\<close>

definition save_participation :: "participation \<Rightarrow> activity_store \<Rightarrow> activity_store" where
  "save_participation p S =
     S\<lparr>participations :=
         map (\<lambda>r. if participation_id r = participation_id p then p else r) (participations S)\<rparr>"

text \<open>
  \<open>ActivityParticipation.approve\<close> and \<open>reject\<close>; \<open>a\<close> is \<open>self.activity\<close>, the instance
  the view holds.
\<close>

definition approve :: "nat \<Rightarrow> participation \<Rightarrow> activity \<Rightarrow> activity_store \<Rightarrow> participation \<times> activity_store" where
  "approve now p a S =
     (if part_status p \<noteq> ''approved'' then
        let p' = p\<lparr>part_status := ''approved'', responded_at := Some now\<rparr>;
            S1 = save_participation p' S;
            a' = a\<lparr>current_participants := current_participants a + group_member_count p\<rparr>;
            (a'', S2) = Activity_save now (Some [''current_participants'']) a' S1
        in (p', S2)
      else (p, S))"

definition reject :: "nat \<Rightarrow> participation \<Rightarrow> activity_store \<Rightarrow> participation \<times> activity_store" where
  "reject now p S =
     (let p' = p\<lparr>part_status := ''rejected'', responded_at := Some now\<rparr>
      in (p', save_participation p' S))"

text \<open>
  \<open>ActivityViewSet.respond_to_application\<close>. \<open>visible\<close> is the queryset of the request
  (\<open>get_queryset\<close>), \<open>uid\<close> the user of the request, \<open>act\<close> the field \<open>action\<close> of the body.
  The push notification at the end writes nothing to the store and raises nothing.
\<close>

definition respond_to_application :: "(activity \<Rightarrow> bool) \<Rightarrow> nat \<Rightarrow> nat \<Rightarrow> nat \<Rightarrow> nat \<Rightarrow> string option \<Rightarrow> activity_store \<Rightarrow> activity_store \<times> participation response" where
  "respond_to_application visible now uid pk pid act S =
     (case find (\<lambda>a. activity_id a = pk \<and> visible a) (activities S) of
        None \<Rightarrow> (S, ErrorResponse 404)
      | Some a \<Rightarrow>
          if creator a \<noteq> uid then (S, ErrorResponse 403)
          else
            (case find (\<lambda>p. participation_id p = pid \<and> part_activity p = pk) (participations S) of
               None \<Rightarrow> (S, ErrorResponse 404)
             | Some p \<Rightarrow>
                 (case act of
                    None \<Rightarrow> (S, ErrorResponse 400)
                  | Some action \<Rightarrow>
                      if action = ''approve'' then
                        (if spots_left a < group_member_count p then (S, ErrorResponse 400)
                         else let (p', S') = approve now p a S in (S', Response 200 p'))
                      else if action = ''reject'' then
                        (let (p', S') = reject now p S in (S', Response 200 p'))
                      else (S, ErrorResponse 400))))"

subsection \<open>Sample data\<close>

definition picnic :: activity where
  "picnic = \<lparr>activity_id = 7, creator = 1, start_time = 100, end_time = None,
              max_participants = 5, current_participants = 4, status = ''active'',
              activity_is_active = True, updated_at = 10\<rparr>"

definition application_of_two :: participation where
  "application_of_two =
     \<lparr>participation_id = 3, part_activity = 7, part_user = 2, part_message = [],
      part_status = ''pending'', is_group = True, group_member_count = 2,
      applied_at = 11, responded_at = None\<rparr>"

definition application_of_one :: participation where
  "application_of_one =
     \<lparr>participation_id = 4, part_activity = 7, part_user = 3, part_message = [],
      part_status = ''pending'', is_group = False, group_member_count = 1,
      applied_at = 12, responded_at = None\<rparr>"

definition store_1 :: activity_store where
  "store_1 = \<lparr>activities = [picnic], participations = [application_of_two, application_of_one]\<rparr>"

definition hike :: activity where
  "hike = \<lparr>activity_id = 8, creator = 1, start_time = 100, end_time = Some 150,
            max_participants = 5, current_participants = 2, status = ''active'',
            activity_is_active = True, updated_at = 10\<rparr>"

definition approved_application :: participation where
  "approved_application =
     \<lparr>participation_id = 5, part_activity = 8, part_user = 2, part_message = [],
      part_status = ''approved'', is_group = False, group_member_count = 1,
      applied_at = 11, responded_at = Some 12\<rparr>"

definition store_2 :: activity_store where
  "store_2 = \<lparr>activities = [hike], participations = [approved_application]\<rparr>"



section \<open>The passes of the filter and the words of a pattern\<close>



















section \<open>Message persistence: properties\<close>






text \<open>
  C2. The scenario of the specification, run on the code: a participant posts
  \<open>call me at 0532 123 45 67\<close> in a conversation, no banned word is active and the profanity
  check finds nothing. None of the four phone patterns matches (the first one needs a
  digit 9 at its start), so the message is stored with the raw text as content, without the
  token \<open>[telefon gizlendi]\<close>, not marked filtered, and with empty original content.
\<close>

theorem turkish_phone_scenario_stored_unfiltered:
  "save_message plain_lib 20 1 alice ''call me at 0532 123 45 67'' db_1 =
     Inr (db_1\<lparr>conversations := [chat_1\<lparr>last_message_at := 20\<rparr>],
               messages := [\<lparr>msg_id = 1, msg_conversation = 1, sender = 1,
                             content = ''call me at 0532 123 45 67'', is_filtered = False,
                             original_content = [], is_read = False,
                             read_at = None, msg_created_at = 20\<rparr>],
               next_message_id := 2\<rparr>,
          \<lparr>md_id = 1, md_sender_id = 1, md_sender_display_name = ''Alice'',
           md_sender_avatar = None, md_content = ''call me at 0532 123 45 67'',
           md_is_filtered = False, md_created_at = 20\<rparr>)
   \<and> py_in tok_phone ''call me at 0532 123 45 67'' = False
   \<and> map (\<lambda>p. re_findall False p ''call me at 0532 123 45 67'') PHONE_PATTERNS = [[], [], [], []]"
  by code_simp

section \<open>Marking messages as read: properties\<close>







section \<open>Activities: properties\<close>

text \<open>
  C6. The claim as written: every successful approval increments the counter by the size
  of the group. The code answers 200 to the approval of an application that is already
  approved and leaves the counter as it is.
\<close>

theorem approval_again_counterexample:
  "respond_to_application (\<lambda>a. True) 20 1 8 5 (Some ''approve'') store_2
     = (store_2, Response 200 approved_application)
   \<and> group_member_count approved_application = 1
   \<and> map current_participants (activities store_2) = [2]"
  by code_simp

text \<open>
  C6, amended. For a request that reaches the capacity check (the activity is found, the
  user is its creator, the application is found): if fewer spots are left than the group
  has members the answer is 400 and the store is unchanged; otherwise the approval of an
  application that is not yet approved is answered with 200 and adds exactly the size of
  the group to \<open>current_participants\<close> of the activity, and the approval of an application
  that is already approved is answered with 200 and changes nothing.
\<close>

theorem approval_capacity_check:
  assumes "find (\<lambda>a. activity_id a = pk \<and> visible a) (activities S) = Some a"
    and "creator a = uid"
    and "find (\<lambda>p. participation_id p = pid \<and> part_activity p = pk) (participations S) = Some p"
  shows "(spots_left a < group_member_count p \<longrightarrow>
            respond_to_application visible now uid pk pid (Some ''approve'') S = (S, ErrorResponse 400))
       \<and> (group_member_count p \<le> spots_left a \<and> part_status p \<noteq> ''approved'' \<longrightarrow>
            (\<exists>S' p'. respond_to_application visible now uid pk pid (Some ''approve'') S
                        = (S', Response 200 p')
               \<and> part_status p' = ''approved''
               \<and> activities S' =
                   map (\<lambda>r. if activity_id r = pk
                             then r\<lparr>current_participants :=
                                      current_participants a + group_member_count p\<rparr>
                             else r) (activities S)))
       \<and> (group_member_count p \<le> spots_left a \<and> part_status p = ''approved'' \<longrightarrow>
            respond_to_application visible now uid pk pid (Some ''approve'') S = (S, Response 200 p))"
proof -
  from assms(1) have pk: "activity_id a = pk" by (auto dest: find_Some_iff[THEN iffD1])
  show ?thesis
    using assms pk
    by (auto simp: respond_to_application_def approve_def Activity_save_def model_save_def
        auto_update_status_def save_participation_def Let_def)
qed

lemma find_picnic:
  "find (\<lambda>a. activity_id a = 7 \<and> (\<lambda>a. True) a) (activities store_1) = Some picnic"
  by (simp add: store_1_def picnic_def)

lemma find_application_of_two:
  "find (\<lambda>p. participation_id p = 3 \<and> part_activity p = 7) (participations store_1)
     = Some application_of_two"
  by (simp add: store_1_def application_of_two_def)

lemma find_application_of_one:
  "find (\<lambda>p. participation_id p = 4 \<and> part_activity p = 7) (participations store_1)
     = Some application_of_one"
  by (simp add: store_1_def application_of_two_def application_of_one_def)

lemma creator_picnic: "creator picnic = 1"
  by (simp add: picnic_def)

theorem approval_capacity_check_witness:
  "max_participants picnic = 5 \<and> current_participants picnic = 4
   \<and> group_member_count application_of_two = 2
   \<and> respond_to_application (\<lambda>a. True) 20 1 7 3 (Some ''approve'') store_1
       = (store_1, ErrorResponse 400)
   \<and> (\<exists>S' p'. respond_to_application (\<lambda>a. True) 20 1 7 4 (Some ''approve'') store_1
                 = (S', Response 200 p')
         \<and> part_status p' = ''approved''
         \<and> map current_participants (activities S') = [5])"
  using approval_capacity_check[OF find_picnic creator_picnic find_application_of_two, of 20]
    approval_capacity_check[OF find_picnic creator_picnic find_application_of_one, of 20]
  by (auto simp: spots_left_def picnic_def application_of_two_def application_of_one_def store_1_def)






section \<open>Creating a conversation: properties\<close>





text \<open>
  The check for an existing conversation looks at the first match only: behind a newer
  direct conversation of three, the direct conversation of the two is not found, and a
  second one is created.
\<close>

lemma dedup_missed_behind_larger_conversation:
  "CreateConversationView_post plain_lib 20 alice to_bob db_3
     = Inr (db_3\<lparr>conversations := [chat_1, chat_of_three, chat_new], next_conversation_id := 4\<rparr>,
            Response 201 chat_new)"
  by code_simp









section \<open>The chat consumer: properties\<close>

lemma group_send_frame [simp]:
  "groups (group_send g ev w) = groups w"
  "conn (group_send g ev w) = conn w"
  "consumers (group_send g ev w) = consumers w"
  "database (group_send g ev w) = database w"
  "c \<notin> groups w g \<Longrightarrow> outbox (group_send g ev w) c = outbox w c"
  by (simp_all add: group_send_def)

lemma receive_frame:
  assumes "receive L now k u p w = Inr w'"
  shows "groups w' = groups w \<and> conn w' = conn w \<and> consumers w' = consumers w
         \<and> (c \<notin> groups w (room_group_name k) \<longrightarrow> outbox w' c = outbox w c)"
  using assms
  by (auto simp: receive_def handle_chat_message_def handle_typing_def handle_read_def Let_def
      split: payload.splits sum.splits if_splits prod.splits)

lemma step_keeps_out:
  assumes "conn w ch = Closed" and "\<forall>g. ch \<notin> groups w g"
    and "action_channel a = ch \<longrightarrow> \<not> is_connect a"
  shows "conn (step L w a) ch = Closed \<and> (\<forall>g. ch \<notin> groups (step L w a) g)
         \<and> outbox (step L w a) ch = outbox w ch"
proof (cases a)
  case (A_connect c su cid)
  with assms show ?thesis
    by (auto simp: connect_def Let_def room_group_name_def split: scope_user.splits)
next
  case (A_receive c p now)
  show ?thesis
  proof (cases "consumers w c")
    case None
    with A_receive assms show ?thesis by simp
  next
    case (Some k)
    show ?thesis
    proof (cases "consumer_user k")
      case (AuthUser u)
      show ?thesis
      proof (cases "conn w c = Joined")
        case True
        with assms have ne: "c \<noteq> ch" by auto
        show ?thesis
        proof (cases "receive L now k u p w")
          case (Inl e)
          with A_receive Some AuthUser True assms ne show ?thesis by simp
        next
          case (Inr w')
          from receive_frame[OF Inr, of ch] assms
          have "groups w' = groups w" "conn w' = conn w" "outbox w' ch = outbox w ch" by auto
          with A_receive Some AuthUser True Inr assms show ?thesis by simp
        qed
      next
        case False
        with A_receive Some AuthUser assms show ?thesis by simp
      qed
    qed (use A_receive Some assms in simp_all)
  qed
next
  case (A_disconnect c)
  with assms show ?thesis
    by (auto simp: disconnect_def split: option.splits)
qed

lemma run_keeps_out:
  "conn w ch = Closed \<Longrightarrow> \<forall>g. ch \<notin> groups w g
   \<Longrightarrow> \<forall>a \<in> set as. action_channel a = ch \<longrightarrow> \<not> is_connect a
   \<Longrightarrow> conn (foldl (step L) w as) ch = Closed \<and> (\<forall>g. ch \<notin> groups (foldl (step L) w as) g)
         \<and> outbox (foldl (step L) w as) ch = outbox w ch"
proof (induction as arbitrary: w)
  case Nil
  then show ?case by simp
next
  case (Cons a as)
  from step_keeps_out[of w ch a L] Cons.prems
  have s: "conn (step L w a) ch = Closed" "\<forall>g. ch \<notin> groups (step L w a) g"
    "outbox (step L w a) ch = outbox w ch" by auto
  from Cons.IH[OF s(1) s(2)] Cons.prems(3) s(3) show ?case by simp
qed

text \<open>
  C4. A connection whose user is missing, anonymous, or not a participant of the
  conversation is closed by \<open>connect\<close>, which adds it to no group and sends it nothing. And
  whatever happens on the server afterwards (frames from its own client and the end of the
  connection included; its channel is never used for another connection attempt), the
  connection stays closed, its channel is in no group, and no frame is delivered to it.
\<close>

theorem rejected_connection_never_joins:
  assumes "su = NoUser \<or> su = AnonymousUser
           \<or> (\<exists>u. su = AuthUser u \<and> \<not> check_participant cid u (database w))"
    and "\<forall>g. ch \<notin> groups w g"
    and "\<forall>a \<in> set as. action_channel a = ch \<longrightarrow> \<not> is_connect a"
  shows "conn (connect ch su cid w) ch = Closed
       \<and> groups (connect ch su cid w) = groups w
       \<and> outbox (connect ch su cid w) = outbox w
       \<and> conn (foldl (step L) (connect ch su cid w) as) ch = Closed
       \<and> (\<forall>g. ch \<notin> groups (foldl (step L) (connect ch su cid w) as) g)
       \<and> outbox (foldl (step L) (connect ch su cid w) as) ch = outbox w ch"
proof -
  from assms(1) have c: "conn (connect ch su cid w) ch = Closed"
    "groups (connect ch su cid w) = groups w" "outbox (connect ch su cid w) = outbox w"
    by (auto simp: connect_def Let_def)
  with assms(2) have "\<forall>g. ch \<notin> groups (connect ch su cid w) g" by simp
  from run_keeps_out[OF c(1) this assms(3), of L] c show ?thesis by simp
qed


lemma world_2_fields:
  "database world_2 = db_1"
  "consumers world_2 10 = Some alice_consumer"
  "consumers world_2 11 = Some bob_consumer"
  "groups world_2 = (\<lambda>g. {})(Chat 1 := {11, 10})"
  "outbox world_2 = (\<lambda>c. [])"
  by (simp_all add: world_2_def world_1_def connect_def check_participant_def db_1_def chat_1_def
       alice_def bob_def alice_consumer_def bob_consumer_def room_group_name_def Let_def)

lemma carol_is_no_participant:
  "AuthUser carol = NoUser \<or> AuthUser carol = AnonymousUser
   \<or> (\<exists>u. AuthUser carol = AuthUser u \<and> \<not> check_participant 1 u (database world_2))"
  by (simp add: world_2_fields check_participant_def db_1_def chat_1_def carol_def)

lemma channel_12_is_new: "\<forall>g. 12 \<notin> groups world_2 g"
  by (simp add: world_2_fields)

lemma trace_of_others:
  "\<forall>a \<in> set [A_receive 11 (P_typing None) 30, A_receive 12 P_read 31,
               A_receive 10 (P_chat_message (Some ''x'')) 32, A_disconnect 12].
     action_channel a = 12 \<longrightarrow> \<not> is_connect a"
  by simp

theorem rejected_connection_never_joins_witness:
  "conn (foldl (step plain_lib) (connect 12 (AuthUser carol) 1 world_2)
           [A_receive 11 (P_typing None) 30, A_receive 12 P_read 31,
            A_receive 10 (P_chat_message (Some ''x'')) 32, A_disconnect 12]) 12 = Closed
   \<and> 12 \<notin> groups (foldl (step plain_lib) (connect 12 (AuthUser carol) 1 world_2)
           [A_receive 11 (P_typing None) 30, A_receive 12 P_read 31,
            A_receive 10 (P_chat_message (Some ''x'')) 32, A_disconnect 12]) (Chat 1)
   \<and> outbox (foldl (step plain_lib) (connect 12 (AuthUser carol) 1 world_2)
           [A_receive 11 (P_typing None) 30, A_receive 12 P_read 31,
            A_receive 10 (P_chat_message (Some ''x'')) 32, A_disconnect 12]) 12 = []"
  using rejected_connection_never_joins[OF carol_is_no_participant channel_12_is_new trace_of_others,
          of plain_lib]
  by (simp add: world_2_fields)

text \<open>
  C8. When the consumer of a joined connection handles a \<open>typing\<close> frame, nothing is sent
  to its own connection, and every connection of the group that belongs to another user
  gets one typing frame with the sender's identifier and name (the display name; the code
  falls back to the part of the e-mail address before the \<open>@\<close> when the display name is
  empty). When it handles a non-empty \<open>chat_message\<close> frame and the message is stored, every
  connection of the group, the sender's own among them, gets the same message frame.
\<close>

theorem typing_excludes_sender_chat_includes:
  assumes "consumers w ch = Some k" and "consumer_user k = AuthUser u"
    and "ch \<in> groups w (room_group_name k)"
  shows "outbox (handle_typing k u t w) ch = outbox w ch
       \<and> (\<forall>c k' v. c \<in> groups w (room_group_name k) \<and> consumers w c = Some k'
              \<and> consumer_user k' = AuthUser v \<and> user_id v \<noteq> user_id u \<longrightarrow>
            outbox (handle_typing k u t w) c =
              outbox w c @ [F_typing (user_id u) (shown_name u) (case t of None \<Rightarrow> False | Some x \<Rightarrow> x)])
       \<and> (display_name u \<noteq> [] \<longrightarrow> shown_name u = display_name u)
       \<and> (handle_chat_message L now k u body w = Inr w' \<and> py_strip (case body of None \<Rightarrow> [] | Some x \<Rightarrow> x) \<noteq> [] \<longrightarrow>
            (\<exists>md. outbox w' ch = outbox w ch @ [F_chat_message md]
               \<and> md_sender_id md = user_id u
               \<and> (\<forall>c k' v. c \<in> groups w (room_group_name k) \<and> consumers w c = Some k'
                      \<and> consumer_user k' = AuthUser v \<longrightarrow>
                    outbox w' c = outbox w c @ [F_chat_message md])))"
  using assms
  by (auto simp: handle_typing_def handle_chat_message_def group_send_def shown_name_def Let_def save_message_def
      split: sum.splits option.splits prod.splits)


lemma bob_joined:
  "consumers world_2 11 = Some bob_consumer" "consumer_user bob_consumer = AuthUser bob"
  "11 \<in> groups world_2 (room_group_name bob_consumer)"
  by (simp_all add: world_2_fields bob_consumer_def room_group_name_def)

lemma bob_chat_stored:
  "\<exists>w'. handle_chat_message plain_lib 30 bob_consumer bob (Some ''hi'') world_2 = Inr w'"
  by (simp add: handle_chat_message_def save_message_def get_conversation_def world_2_fields
       db_1_def chat_1_def bob_consumer_def py_strip_def is_space_def Let_def
       split: prod.splits)

theorem typing_excludes_sender_chat_includes_witness:
  "outbox (handle_typing bob_consumer bob (Some True) world_2) 11 = []
   \<and> outbox (handle_typing bob_consumer bob (Some True) world_2) 10 = [F_typing 2 ''bob'' True]
   \<and> (\<exists>w' md. handle_chat_message plain_lib 30 bob_consumer bob (Some ''hi'') world_2 = Inr w'
         \<and> outbox w' 11 = [F_chat_message md] \<and> outbox w' 10 = [F_chat_message md]
         \<and> md_sender_id md = 2)"
proof -
  obtain w' where w': "handle_chat_message plain_lib 30 bob_consumer bob (Some ''hi'') world_2 = Inr w'"
    using bob_chat_stored by blast
  have s: "py_strip (case Some ''hi'' of None \<Rightarrow> [] | Some x \<Rightarrow> x) \<noteq> []"
    by (simp add: py_strip_def is_space_def)
  have a: "10 \<in> groups world_2 (room_group_name bob_consumer)"
    "consumers world_2 10 = Some alice_consumer" "consumer_user alice_consumer = AuthUser alice"
    "user_id alice \<noteq> user_id bob"
    by (simp_all add: world_2_fields bob_consumer_def alice_consumer_def room_group_name_def
         alice_def bob_def)
  note t = typing_excludes_sender_chat_includes[OF bob_joined, of "Some True" plain_lib 30 "Some ''hi''" w']
  from t have "outbox (handle_typing bob_consumer bob (Some True) world_2) 11 = []"
    by (simp add: world_2_fields)
  moreover from t a have "outbox (handle_typing bob_consumer bob (Some True) world_2) 10
      = [F_typing 2 ''bob'' True]"
    by (simp add: world_2_fields shown_name_def bob_def)
  moreover from t w' s obtain md where md: "outbox w' 11 = outbox world_2 11 @ [F_chat_message md]"
    "md_sender_id md = user_id bob"
    "\<forall>c k' v. c \<in> groups world_2 (room_group_name bob_consumer) \<and> consumers world_2 c = Some k'
        \<and> consumer_user k' = AuthUser v \<longrightarrow> outbox w' c = outbox world_2 c @ [F_chat_message md]"
    by blast
  from md(3) a have "outbox w' 10 = outbox world_2 10 @ [F_chat_message md]" by blast
  with md w' have "\<exists>w' md. handle_chat_message plain_lib 30 bob_consumer bob (Some ''hi'') world_2 = Inr w'
         \<and> outbox w' 11 = [F_chat_message md] \<and> outbox w' 10 = [F_chat_message md]
         \<and> md_sender_id md = 2"
    by (auto simp: world_2_fields bob_def)
  ultimately show ?thesis by blast
qed

section \<open>The content filter: idempotence\<close>

subsection \<open>The matcher finds a word exactly where there is one\<close>

















subsection \<open>A token separates the matches around it\<close>
















subsection \<open>The phone, e-mail and social-media passes\<close>















subsection \<open>The profanity and banned-word passes\<close>











end
